theory Spec2Isabelle
  imports Main "HOL-Library.Word"
begin

section \<open>Data model (goemail.go)\<close>

text \<open>
  A Go \<open>error\<close> is \<open>nil\<close> or a value carrying a message: \<open>None\<close> is \<open>nil\<close>,
  \<open>Some msg\<close> is \<open>errors.New(msg)\<close> or \<open>fmt.Errorf(msg)\<close>. Strings are byte lists,
  so \<open>length\<close> is Go's \<open>len\<close>.
\<close>

type_synonym error = "string option"

definition EmptyContent :: error where
  "EmptyContent = Some ''content missing''"

definition Timeout :: error where
  "Timeout = Some ''send email timeout''"

definition RetriesExhausted :: error where
  "RetriesExhausted = Some ''retries are exhausted''"

definition ContentHTML :: string where
  "ContentHTML = ''html''"

definition ContentText :: string where
  "ContentText = ''text''"

text \<open>The transport handle built by \<open>gomail.NewDialer(host, port, user, password)\<close>.\<close>

record Dialer =
  Host :: string
  Port :: int
  Username :: string
  Password :: string

definition NewDialer :: "string \<Rightarrow> int \<Rightarrow> string \<Rightarrow> string \<Rightarrow> Dialer" where
  "NewDialer h p u pw = \<lparr>Host = h, Port = p, Username = u, Password = pw\<rparr>"

record email =
  dialer :: Dialer
  content :: string
  contentType :: string
  sender :: string
  senderName :: string
  returnEmail :: string
  subject :: string
  tags :: string
  to :: "string list"
  cc :: "string list"
  bcc :: "string list"
  imagesToEmbed :: "string list"
  attachments :: "string list"

text \<open>
  The type is unexported and \<open>New\<close> is its only constructor, so every value has a
  dialer. \<open>email_with d\<close> is \<open>&email{dialer: d}\<close>: all other fields are zero values.
\<close>

definition email_with :: "Dialer \<Rightarrow> email" where
  "email_with d = \<lparr>dialer = d, content = [], contentType = [], sender = [],
     senderName = [], returnEmail = [], subject = [], tags = [], to = [], cc = [],
     bcc = [], imagesToEmbed = [], attachments = []\<rparr>"

record 'd Content =
  Type :: string
  Content :: string
  TemplatePath :: string
  Data :: 'd

record ConnectionDetails =
  SmtpHost :: string
  SmtpPort :: int
  SmtpUser :: string
  SmtpPassword :: string

subsection \<open>Construction and validation\<close>

text \<open>
  \<open>ConnectionDetails.validate\<close>: the four checks append to the local \<open>errStr\<close>, and the
  function ends in \<open>return nil\<close>; \<open>errStr\<close> is never read.
\<close>

definition ConnectionDetails_validate :: "ConnectionDetails \<Rightarrow> error" where
  "ConnectionDetails_validate c =
     (let errStr = [];
          errStr = (if SmtpHost c = [] then errStr @ ''host cannot be empty'' else errStr);
          errStr = (if SmtpPort c = 0 then errStr @ ''port cannot be 0'' else errStr);
          errStr = (if SmtpPassword c = [] then errStr @ ''SmtpPassword cannot be empty''
                    else errStr);
          errStr = (if SmtpUser c = [] then errStr @ ''SmtpUser cannot be empty''
                    else errStr)
      in None)"

text \<open>\<open>New\<close> returns \<open>(nil, err)\<close> as \<open>Inl err\<close> and \<open>(&email{...}, nil)\<close> as \<open>Inr\<close>.\<close>

definition New :: "ConnectionDetails \<Rightarrow> string + email" where
  "New c =
     (case ConnectionDetails_validate c of
        Some err \<Rightarrow> Inl err
      | None \<Rightarrow>
          Inr (email_with (NewDialer (SmtpHost c) (SmtpPort c) (SmtpUser c) (SmtpPassword c))))"

definition email_validate :: "email \<Rightarrow> error" where
  "email_validate e =
     (if content e = [] then Some ''content missing''
      else if subject e \<noteq> [] \<and> length (subject e) > 500 then Some ''subject too long''
      else if tags e \<noteq> [] \<and> length (tags e) > 500 then Some ''tags too long''
      else if sender e \<noteq> [] \<and> length (sender e) > 500 then Some ''sender email too long''
      else if senderName e \<noteq> [] \<and> length (senderName e) > 500
        then Some ''sender name email too long''
      else if returnEmail e \<noteq> [] \<and> length (returnEmail e) > 500
        then Some ''returnEmail too long''
      else None)"

subsection \<open>Setters\<close>

definition SetAttachements :: "email \<Rightarrow> string list \<Rightarrow> email" where
  "SetAttachements e files = e\<lparr>attachments := files\<rparr>"

definition SetImagesToEmbed :: "email \<Rightarrow> string list \<Rightarrow> email" where
  "SetImagesToEmbed e images = e\<lparr>imagesToEmbed := images\<rparr>"

text \<open>
  \<open>SetContent\<close> mutates the receiver and returns an error; the model returns both. The
  template renderer \<open>processTemplate\<close> (html/template and the file system) is a parameter:
  \<open>Inl err\<close> when parsing or execution fails, \<open>Inr s\<close> for the rendered string. On the error
  paths the assignment to \<open>contentType\<close> has already happened.
\<close>

definition SetContent ::
  "(string \<Rightarrow> 'd \<Rightarrow> string + string) \<Rightarrow> email \<Rightarrow> 'd Content \<Rightarrow> error \<times> email" where
  "SetContent processTemplate e0 c =
     (let e = e0\<lparr>contentType := Type c\<rparr> in
      if Type c = ContentHTML then
        (if Content c \<noteq> [] then (None, e\<lparr>content := Content c\<rparr>)
         else if TemplatePath c \<noteq> [] then
           (case processTemplate (TemplatePath c) (Data c) of
              Inl err \<Rightarrow> (Some err, e)
            | Inr s \<Rightarrow> (None, e\<lparr>content := s\<rparr>))
         else (Some ''not content provided'', e))
      else if Type c = ContentText then (None, e\<lparr>content := Content c\<rparr>)
      else (None, e))"

section \<open>Message builder (gomail.go)\<close>

text \<open>
  The message descriptor of the mail-transport library, reduced to what \<open>getMessage\<close>
  writes: the headers (a Go map from field name to values), the body set by
  \<open>SetBody(contentType, body)\<close>, the inline files added by \<open>Embed\<close> and the file
  attachments. \<open>gm.FormatAddress(addr, name)\<close> is kept symbolic as \<open>Address addr name\<close>.
\<close>

datatype header_value = Plain string | Address string string

record Message =
  msg_header :: "string \<rightharpoonup> header_value list"
  msg_body :: "(string \<times> string) option"
  msg_embedded :: "string list"
  msg_attachments :: "string list"

definition NewMessage :: Message where
  "NewMessage = \<lparr>msg_header = Map.empty, msg_body = None, msg_embedded = [],
     msg_attachments = []\<rparr>"

definition SetBody :: "Message \<Rightarrow> string \<Rightarrow> string \<Rightarrow> Message" where
  "SetBody gm ct b = gm\<lparr>msg_body := Some (ct, b)\<rparr>"

definition SetHeader :: "Message \<Rightarrow> string \<Rightarrow> header_value list \<Rightarrow> Message" where
  "SetHeader gm field vs = gm\<lparr>msg_header := (msg_header gm)(field \<mapsto> vs)\<rparr>"

definition FormatAddress :: "string \<Rightarrow> string \<Rightarrow> header_value" where
  "FormatAddress addr name = Address addr name"

definition Embed :: "Message \<Rightarrow> string \<Rightarrow> Message" where
  "Embed gm filename = gm\<lparr>msg_embedded := msg_embedded gm @ [filename]\<rparr>"

text \<open>
  \<open>getMessage\<close> as in the documented copy of gomail.go: the body for "html" and "text",
  the recipient headers when their lists are non-empty, the four fixed headers, and one
  \<open>Embed\<close> per image path. The function never reads \<open>e.attachments\<close>.
\<close>

definition getMessage :: "email \<Rightarrow> Message" where
  "getMessage e =
     (let gm = NewMessage;
          gm = (if contentType e = ContentHTML then SetBody gm ''text/html'' (content e)
                else if contentType e = ContentText then SetBody gm ''text/plain'' (content e)
                else gm);
          gm = (if length (to e) > 0
                then SetHeader gm ''To'' (map (\<lambda>v. FormatAddress v []) (to e)) else gm);
          gm = (if length (cc e) > 0
                then SetHeader gm ''Cc'' (map (\<lambda>v. FormatAddress v []) (cc e)) else gm);
          gm = (if length (bcc e) > 0
                then SetHeader gm ''Bcc'' (map (\<lambda>v. FormatAddress v []) (bcc e)) else gm);
          gm = SetHeader gm ''Subject'' [Plain (subject e)];
          gm = SetHeader gm ''From'' [FormatAddress (sender e) (senderName e)];
          gm = SetHeader gm ''X-SES-MESSAGE-TAGS'' [Plain (tags e)];
          gm = SetHeader gm ''Return-Path'' [Plain (returnEmail e)];
          gm = (if length (imagesToEmbed e) > 0 then foldl Embed gm (imagesToEmbed e) else gm)
      in gm)"

text \<open>
  The copy in src/gomail.go differs in one place: it sets a body for "html" only.
\<close>

definition getMessage0 :: "email \<Rightarrow> Message" where
  "getMessage0 e =
     (let gm = NewMessage;
          gm = (if contentType e = ContentHTML then SetBody gm ''text/html'' (content e)
                else gm);
          gm = (if length (to e) > 0
                then SetHeader gm ''To'' (map (\<lambda>v. FormatAddress v []) (to e)) else gm);
          gm = (if length (cc e) > 0
                then SetHeader gm ''Cc'' (map (\<lambda>v. FormatAddress v []) (cc e)) else gm);
          gm = (if length (bcc e) > 0
                then SetHeader gm ''Bcc'' (map (\<lambda>v. FormatAddress v []) (bcc e)) else gm);
          gm = SetHeader gm ''Subject'' [Plain (subject e)];
          gm = SetHeader gm ''From'' [FormatAddress (sender e) (senderName e)];
          gm = SetHeader gm ''X-SES-MESSAGE-TAGS'' [Plain (tags e)];
          gm = SetHeader gm ''Return-Path'' [Plain (returnEmail e)];
          gm = (if length (imagesToEmbed e) > 0 then foldl Embed gm (imagesToEmbed e) else gm)
      in gm)"

text \<open>
  \<open>sendEmail\<close> hands the built message to \<open>e.dialer.DialAndSend\<close>. The network is a
  parameter: \<open>net k d m\<close> is what the \<open>k\<close>-th delivery attempt (counting from 0) returns.
\<close>

definition sendEmail :: "(nat \<Rightarrow> Dialer \<Rightarrow> Message \<Rightarrow> error) \<Rightarrow> nat \<Rightarrow> email \<Rightarrow> error" where
  "sendEmail net k e = net k (dialer e) (getMessage e)"

section \<open>Retry engine (helper.go)\<close>

text \<open>
  \<open>time.Duration\<close> is an \<open>int64\<close> count of nanoseconds; its arithmetic wraps.
\<close>

type_synonym Duration = "64 word"

definition Second :: Duration where
  "Second = 1000000000"

text \<open>
  \<open>time.Duration(math.Pow(2, float64(i)))\<close>. For \<open>0 \<le> i < 63\<close> the power is an exact
  float and converts exactly. A negative exponent gives a fraction, truncated to 0. From
  \<open>i = 63\<close> on the float is out of the range of \<open>int64\<close> and Go leaves the result to the
  implementation; the value written here is the one amd64 produces (the minimum
  \<open>int64\<close>).
\<close>

definition pow2 :: "int \<Rightarrow> Duration" where
  "pow2 i = (if i < 0 then 0 else if i < 63 then 2 ^ nat i else 2 ^ 63)"

text \<open>Line 37 of helper.go: \<open>backoff := delay * ...\<close> with \<open>delay := 2 * time.Second\<close>.\<close>

definition backoffAt :: "int \<Rightarrow> Duration" where
  "backoffAt i = (2 * Second) * pow2 i"

text \<open>
  \<open>rand.Int63n(n)\<close> panics with "invalid argument to Int63n" when \<open>n \<le> 0\<close> and returns a
  value in \<open>[0, n)\<close> otherwise. The generator is a parameter: \<open>rnd k\<close> is the raw value
  behind the \<open>k\<close>-th draw. \<open>None\<close> is the panic.
\<close>

definition Int63n :: "(nat \<Rightarrow> int) \<Rightarrow> nat \<Rightarrow> int \<Rightarrow> int option" where
  "Int63n rnd k n = (if n \<le> 0 then None else Some (rnd k mod n))"

text \<open>
  What one call of the engine leaves behind, for the properties to read: how often \<open>fn\<close>
  was invoked, how many draws and completed backoff waits there were, and the backoffs,
  jitters and sleeps computed, in order.
\<close>

record world =
  calls :: nat
  draws :: nat
  waits :: nat
  backoffs :: "Duration list"
  jitters :: "Duration list"
  sleeps :: "Duration list"

definition world0 :: world where
  "world0 = \<lparr>calls = 0, draws = 0, waits = 0, backoffs = [], jitters = [], sleeps = []\<rparr>"

datatype 'a result = Return 'a | Panic string

text \<open>
  The loop body, the same text in both copies of helper.go up to what is printed:
  invoke \<open>fn\<close>; on \<open>nil\<close> return \<open>nil\<close>; otherwise compute the backoff, draw the jitter
  with bound \<open>int64(i)\<close>, and \<open>select\<close> between the timer and \<open>ctx.Done()\<close>. The context
  is a parameter: \<open>ctx k\<close> says that \<open>ctx.Done()\<close> wins the \<open>select\<close> entered after \<open>k\<close>
  completed waits. \<open>fn k e\<close> is the outcome of the \<open>k\<close>-th invocation. The body yields
  \<open>Some r\<close> when the function returns (or panics) and \<open>None\<close> when the loop goes on.
\<close>

definition iteration ::
  "(nat \<Rightarrow> int) \<Rightarrow> (nat \<Rightarrow> bool) \<Rightarrow> email \<Rightarrow> (nat \<Rightarrow> email \<Rightarrow> error) \<Rightarrow> int \<Rightarrow> world
     \<Rightarrow> error result option \<times> world" where
  "iteration rnd ctx e fn i w0 =
     (let err = fn (calls w0) e;
          w = w0\<lparr>calls := calls w0 + 1\<rparr>
      in if err = None then (Some (Return None), w)
         else
           let backoff = backoffAt i;
               w = w\<lparr>backoffs := backoffs w @ [backoff]\<rparr>
           in case Int63n rnd (draws w) i of
                None \<Rightarrow> (Some (Panic ''invalid argument to Int63n''), w)
              | Some r \<Rightarrow>
                  let jitter = word_of_int r;
                      sleep = backoff + jitter;
                      w = w\<lparr>draws := draws w + 1, jitters := jitters w @ [jitter]\<rparr>
                  in if ctx (waits w) then (Some (Return (Some ''send email timeout'')), w)
                     else (None, w\<lparr>waits := waits w + 1, sleeps := sleeps w @ [sleep]\<rparr>))"

text \<open>
  The loop index and \<open>retry\<close> are Go \<open>int\<close>s, 64 bits wide: integers between
  \<open>MinInt64\<close> and \<open>MaxInt64\<close>. \<open>i++\<close> wraps from the largest to the smallest.
\<close>

definition MaxInt64 :: int where
  "MaxInt64 = 2 ^ 63 - 1"

definition MinInt64 :: int where
  "MinInt64 = - (2 ^ 63)"

definition incr :: "int \<Rightarrow> int" where
  "incr i = (if i = MaxInt64 then MinInt64 else i + 1)"

text \<open>
  src/helper.go: \<open>for i := 0; i < retry; i++\<close>. The loop goes on only after a draw that
  did not panic, that is from a positive index, which is what bounds it.
\<close>

function retryLoop0 ::
  "(nat \<Rightarrow> int) \<Rightarrow> (nat \<Rightarrow> bool) \<Rightarrow> email \<Rightarrow> (nat \<Rightarrow> email \<Rightarrow> error) \<Rightarrow> int \<Rightarrow> int \<Rightarrow> world
     \<Rightarrow> error result \<times> world" where
  "retryLoop0 rnd ctx e fn retry i w =
     (if i < retry then
        (case iteration rnd ctx e fn i w of
           (Some r, w') \<Rightarrow> (r, w')
         | (None, w') \<Rightarrow> retryLoop0 rnd ctx e fn retry (incr i) w')
      else (Return (Some ''retries are exhausted''), w))"
  by pat_completeness auto
termination
  by (relation "measure (\<lambda>(rnd, ctx, e, fn, retry, i, w).
        if i \<le> 0 then 0 else if i \<le> MaxInt64 then nat (MaxInt64 - i) + 1
        else nat (retry - i))")
    (auto simp: iteration_def Let_def Int63n_def incr_def MaxInt64_def MinInt64_def
      split: if_splits option.splits)

definition exponentialBackOffRetry0 ::
  "(nat \<Rightarrow> int) \<Rightarrow> (nat \<Rightarrow> bool) \<Rightarrow> email \<Rightarrow> (nat \<Rightarrow> email \<Rightarrow> error) \<Rightarrow> int \<Rightarrow> world
     \<Rightarrow> error result \<times> world" where
  "exponentialBackOffRetry0 rnd ctx e fn retry w = retryLoop0 rnd ctx e fn retry 0 w"

text \<open>The documented copy of helper.go: \<open>for i := 1; i <= retry; i++\<close>.\<close>

function retryLoop1 ::
  "(nat \<Rightarrow> int) \<Rightarrow> (nat \<Rightarrow> bool) \<Rightarrow> email \<Rightarrow> (nat \<Rightarrow> email \<Rightarrow> error) \<Rightarrow> int \<Rightarrow> int \<Rightarrow> world
     \<Rightarrow> error result \<times> world" where
  "retryLoop1 rnd ctx e fn retry i w =
     (if i \<le> retry then
        (case iteration rnd ctx e fn i w of
           (Some r, w') \<Rightarrow> (r, w')
         | (None, w') \<Rightarrow> retryLoop1 rnd ctx e fn retry (incr i) w')
      else (Return (Some ''retries are exhausted''), w))"
  by pat_completeness auto
termination
  by (relation "measure (\<lambda>(rnd, ctx, e, fn, retry, i, w).
        if i \<le> 0 then 0 else if i \<le> MaxInt64 then nat (MaxInt64 - i) + 1
        else nat (retry + 1 - i))")
    (auto simp: iteration_def Let_def Int63n_def incr_def MaxInt64_def MinInt64_def
      split: if_splits option.splits)

definition exponentialBackOffRetry1 ::
  "(nat \<Rightarrow> int) \<Rightarrow> (nat \<Rightarrow> bool) \<Rightarrow> email \<Rightarrow> (nat \<Rightarrow> email \<Rightarrow> error) \<Rightarrow> int \<Rightarrow> world
     \<Rightarrow> error result \<times> world" where
  "exponentialBackOffRetry1 rnd ctx e fn retry w = retryLoop1 rnd ctx e fn retry 1 w"

section \<open>Send (gomail.go, goemail.go)\<close>

text \<open>
  \<open>gomailSender.Send\<close> validates and then calls \<open>exponentialBackOffRetry(ctx, e, sendEmail,
  g.retry)\<close>. The repository holds two bodies for that name, so the engine is the first
  argument here: \<open>exponentialBackOffRetry0\<close> or \<open>exponentialBackOffRetry1\<close>.
\<close>

type_synonym engine =
  "(nat \<Rightarrow> int) \<Rightarrow> (nat \<Rightarrow> bool) \<Rightarrow> email \<Rightarrow> (nat \<Rightarrow> email \<Rightarrow> error) \<Rightarrow> int \<Rightarrow> world
     \<Rightarrow> error result \<times> world"

record gomailSender =
  retry :: int

definition gomailSender_Send ::
  "engine \<Rightarrow> (nat \<Rightarrow> int) \<Rightarrow> (nat \<Rightarrow> Dialer \<Rightarrow> Message \<Rightarrow> error) \<Rightarrow> gomailSender
     \<Rightarrow> (nat \<Rightarrow> bool) \<Rightarrow> email \<Rightarrow> world \<Rightarrow> error result \<times> world" where
  "gomailSender_Send eng rnd net g ctx e w =
     (case email_validate e of
        Some err \<Rightarrow> (Return (Some err), w)
      | None \<Rightarrow> eng rnd ctx e (sendEmail net) (retry g) w)"

definition sendBy ::
  "engine \<Rightarrow> (nat \<Rightarrow> int) \<Rightarrow> (nat \<Rightarrow> Dialer \<Rightarrow> Message \<Rightarrow> error) \<Rightarrow> (nat \<Rightarrow> bool)
     \<Rightarrow> gomailSender \<Rightarrow> email \<Rightarrow> world \<Rightarrow> error result \<times> world" where
  "sendBy eng rnd net ctx s e w = gomailSender_Send eng rnd net s ctx e w"

definition Send ::
  "engine \<Rightarrow> (nat \<Rightarrow> int) \<Rightarrow> (nat \<Rightarrow> Dialer \<Rightarrow> Message \<Rightarrow> error) \<Rightarrow> email \<Rightarrow> (nat \<Rightarrow> bool)
     \<Rightarrow> int \<Rightarrow> world \<Rightarrow> error result \<times> world" where
  "Send eng rnd net e ctx n w = sendBy eng rnd net ctx \<lparr>retry = n\<rparr> e w"

section \<open>Concrete inputs\<close>

text \<open>
  Inputs for the evaluated examples: a valid mail, a network that refuses every attempt,
  one that accepts the third, one that accepts the first, a context that is already
  cancelled, one that is cancelled once two waits have completed, one that never is, and
  a fixed random source.
\<close>

definition mail0 :: email where
  "mail0 = (email_with (NewDialer ''smtp.example.com'' 587 ''u'' ''p''))
     \<lparr>to := [''a@b.com''], subject := ''Hi'', content := ''hello''\<rparr>"

definition always_fails :: "nat \<Rightarrow> email \<Rightarrow> error" where
  "always_fails k e = Some ''connection refused''"

definition net_down :: "nat \<Rightarrow> Dialer \<Rightarrow> Message \<Rightarrow> error" where
  "net_down k d m = Some ''connection refused''"

definition net_third :: "nat \<Rightarrow> Dialer \<Rightarrow> Message \<Rightarrow> error" where
  "net_third k d m = (if k < 2 then Some ''connection refused'' else None)"

definition net_up :: "nat \<Rightarrow> Dialer \<Rightarrow> Message \<Rightarrow> error" where
  "net_up k d m = None"

definition cancelled :: "nat \<Rightarrow> bool" where
  "cancelled k = True"

definition cancelled_late :: "nat \<Rightarrow> bool" where
  "cancelled_late k = (2 \<le> k)"

definition never_cancelled :: "nat \<Rightarrow> bool" where
  "never_cancelled k = False"

definition rnd0 :: "nat \<Rightarrow> int" where
  "rnd0 k = 5 * int k + 3"

definition unknown_content :: "unit Content" where
  "unknown_content =
     \<lparr>Type = ''markdown'', Content = ''# hello'', TemplatePath = [], Data = ()\<rparr>"

definition no_templates :: "string \<Rightarrow> unit \<Rightarrow> string + string" where
  "no_templates path d = Inl ''open: no such file or directory''"

section \<open>The loop body and the two loops\<close>

declare retryLoop0.simps [simp del] retryLoop1.simps [simp del]

lemma iteration_calls: "calls (snd (iteration rnd ctx e fn i w)) = calls w + 1"
  by (simp add: iteration_def Let_def split: option.splits)

lemma iteration_waits:
  "waits (snd (iteration rnd ctx e fn i w)) =
     waits w + (if fst (iteration rnd ctx e fn i w) = None then 1 else 0)"
  by (simp add: iteration_def Let_def split: option.splits)

lemma iteration_backoffs:
  "backoffs (snd (iteration rnd ctx e fn i w)) =
     backoffs w @ (if fn (calls w) e = None then [] else [backoffAt i])"
  by (simp add: iteration_def Let_def split: option.splits)

lemma iteration_result:
  "fst (iteration rnd ctx e fn i w) =
     (if fn (calls w) e = None then Some (Return None)
      else if i \<le> 0 then Some (Panic ''invalid argument to Int63n'')
      else if ctx (waits w) then Some (Return Timeout)
      else None)"
  by (simp add: iteration_def Let_def Int63n_def Timeout_def split: option.splits)

lemma incr_below: "i < MaxInt64 \<Longrightarrow> incr i = i + 1"
  by (simp add: incr_def)

lemma incr_le_MaxInt64: "i \<le> MaxInt64 \<Longrightarrow> incr i \<le> MaxInt64"
  by (simp add: incr_def MaxInt64_def MinInt64_def)

lemma retryLoop1_exit:
  "n < i \<Longrightarrow> retryLoop1 rnd ctx e fn n i w = (Return RetriesExhausted, w)"
  by (simp add: retryLoop1.simps RetriesExhausted_def)

lemma retryLoop1_step:
  "i \<le> n \<Longrightarrow>
   retryLoop1 rnd ctx e fn n i w =
     (case fst (iteration rnd ctx e fn i w) of
        Some r \<Rightarrow> (r, snd (iteration rnd ctx e fn i w))
      | None \<Rightarrow> retryLoop1 rnd ctx e fn n (incr i) (snd (iteration rnd ctx e fn i w)))"
  by (subst retryLoop1.simps) (simp split: prod.splits option.splits)

lemma retryLoop0_exit:
  "n \<le> i \<Longrightarrow> retryLoop0 rnd ctx e fn n i w = (Return RetriesExhausted, w)"
  by (simp add: retryLoop0.simps RetriesExhausted_def)

lemma retryLoop0_step:
  "i < n \<Longrightarrow>
   retryLoop0 rnd ctx e fn n i w =
     (case fst (iteration rnd ctx e fn i w) of
        Some r \<Rightarrow> (r, snd (iteration rnd ctx e fn i w))
      | None \<Rightarrow> retryLoop0 rnd ctx e fn n (incr i) (snd (iteration rnd ctx e fn i w)))"
  by (subst retryLoop0.simps) (simp split: prod.splits option.splits)

text \<open>
  With every attempt failing, no cancellation and a bound below the largest \<open>int\<close>, the
  1-indexed loop started at a positive index runs to its bound: one invocation per index
  left.
\<close>

lemma retryLoop1_exhausts:
  "\<forall>k. fn k e \<noteq> None \<Longrightarrow> \<forall>k. \<not> ctx k \<Longrightarrow> 0 < i \<Longrightarrow> n < MaxInt64 \<Longrightarrow>
    fst (retryLoop1 rnd ctx e fn n i w) = Return RetriesExhausted \<and>
    calls (snd (retryLoop1 rnd ctx e fn n i w)) = calls w + nat (n + 1 - i)"
proof (induction rnd ctx e fn n i w rule: retryLoop1.induct)
  case (1 rnd ctx e fn n i w)
  show ?case
  proof (cases "i \<le> n")
    case False
    then show ?thesis by (simp add: retryLoop1_exit)
  next
    case True
    let ?it = "iteration rnd ctx e fn i w"
    have res: "fst ?it = None"
      using "1.prems" by (simp add: iteration_result)
    have inc: "incr i = i + 1"
      using True "1.prems"(4) by (simp add: incr_below)
    have "0 < incr i" using "1.prems" inc by simp
    from "1.IH" [OF True prod.collapse res "1.prems"(1,2) this "1.prems"(4)]
    show ?thesis
      using True res inc by (simp add: retryLoop1_step iteration_calls)
  qed
qed

text \<open>
  Invocations against completed waits: every invocation is followed by a completed wait,
  except the last one when the loop ends in anything but exhaustion.
\<close>

lemma retryLoop1_calls_waits:
  "calls (snd (retryLoop1 rnd ctx e fn n i w)) + waits w =
     calls w + waits (snd (retryLoop1 rnd ctx e fn n i w)) +
       (if fst (retryLoop1 rnd ctx e fn n i w) = Return RetriesExhausted then 0 else 1)"
proof (induction rnd ctx e fn n i w rule: retryLoop1.induct)
  case (1 rnd ctx e fn n i w)
  show ?case
  proof (cases "i \<le> n")
    case False
    then show ?thesis by (simp add: retryLoop1_exit)
  next
    case True
    let ?it = "iteration rnd ctx e fn i w"
    show ?thesis
    proof (cases "fst ?it")
      case None
      from "1.IH" [OF True prod.collapse None]
      show ?thesis
        using True None by (simp add: retryLoop1_step iteration_calls iteration_waits)
    next
      case (Some r)
      then have "r \<noteq> Return RetriesExhausted"
        by (auto simp: iteration_result Timeout_def RetriesExhausted_def split: if_splits)
      then show ?thesis
        using True Some by (simp add: retryLoop1_step iteration_calls iteration_waits)
    qed
  qed
qed

text \<open>
  With a bound below the largest \<open>int\<close> the 1-indexed loop never reaches the draw with a
  bound below 1.
\<close>

lemma retryLoop1_no_panic:
  "0 < i \<Longrightarrow> n < MaxInt64 \<Longrightarrow> fst (retryLoop1 rnd ctx e fn n i w) \<noteq> Panic s"
proof (induction rnd ctx e fn n i w rule: retryLoop1.induct)
  case (1 rnd ctx e fn n i w)
  show ?case
  proof (cases "i \<le> n")
    case False
    then show ?thesis by (simp add: retryLoop1_exit)
  next
    case True
    let ?it = "iteration rnd ctx e fn i w"
    show ?thesis
    proof (cases "fst ?it")
      case None
      have "0 < incr i" using "1.prems" True by (simp add: incr_below)
      from "1.IH" [OF True prod.collapse None this "1.prems"(2)]
      show ?thesis
        using True None by (simp add: retryLoop1_step)
    next
      case (Some r)
      then have "r \<noteq> Panic s"
        using "1.prems" by (auto simp: iteration_result split: if_splits)
      then show ?thesis
        using True Some by (simp add: retryLoop1_step)
    qed
  qed
qed

text \<open>
  With the largest \<open>int\<close> as bound the loop condition holds at every index, so the loop
  cannot end in exhaustion: the index wraps, and the attempt at the smallest index either
  succeeds or is followed by a draw that panics.
\<close>

lemma retryLoop1_MaxInt64:
  "i \<le> MaxInt64 \<Longrightarrow> n = MaxInt64 \<Longrightarrow>
   fst (retryLoop1 rnd ctx e fn n i w) \<noteq> Return RetriesExhausted"
proof (induction rnd ctx e fn n i w rule: retryLoop1.induct)
  case (1 rnd ctx e fn n i w)
  have le: "i \<le> n" using "1.prems" by simp
  let ?it = "iteration rnd ctx e fn i w"
  show ?case
  proof (cases "fst ?it")
    case None
    have "incr i \<le> MaxInt64" using "1.prems"(1) by (rule incr_le_MaxInt64)
    from "1.IH" [OF le prod.collapse None this "1.prems"(2)]
    show ?thesis
      using le None by (simp add: retryLoop1_step)
  next
    case (Some r)
    then have "r \<noteq> Return RetriesExhausted"
      by (auto simp: iteration_result Timeout_def RetriesExhausted_def split: if_splits)
    then show ?thesis
      using le Some by (simp add: retryLoop1_step)
  qed
qed

lemma first_jitter_zero: "Int63n rnd k 1 = Some 0"
  by (simp add: Int63n_def)

text \<open>
  How a run ends. No invocation but the last can have succeeded, and a success is the last
  invocation and gives \<open>nil\<close>, whatever the context says. The timeout is returned only
  when the last invocation failed and \<open>ctx.Done()\<close> won the \<open>select\<close> that followed it.
\<close>

lemma retryLoop1_outcome:
  "calls w \<le> calls (snd (retryLoop1 rnd ctx e fn n i w)) \<and>
   (\<forall>k. calls w \<le> k \<and> k < calls (snd (retryLoop1 rnd ctx e fn n i w)) \<and> fn k e = None \<longrightarrow>
      fst (retryLoop1 rnd ctx e fn n i w) = Return None \<and>
      calls (snd (retryLoop1 rnd ctx e fn n i w)) = k + 1) \<and>
   (fst (retryLoop1 rnd ctx e fn n i w) = Return None \<longrightarrow>
      calls w < calls (snd (retryLoop1 rnd ctx e fn n i w)) \<and>
      fn (calls (snd (retryLoop1 rnd ctx e fn n i w)) - 1) e = None) \<and>
   (fst (retryLoop1 rnd ctx e fn n i w) = Return Timeout \<longrightarrow>
      calls w < calls (snd (retryLoop1 rnd ctx e fn n i w)) \<and>
      fn (calls (snd (retryLoop1 rnd ctx e fn n i w)) - 1) e \<noteq> None \<and>
      ctx (waits (snd (retryLoop1 rnd ctx e fn n i w))))"
proof (induction rnd ctx e fn n i w rule: retryLoop1.induct)
  case (1 rnd ctx e fn n i w)
  show ?case
  proof (cases "i \<le> n")
    case False
    then show ?thesis
      by (simp add: retryLoop1_exit RetriesExhausted_def Timeout_def)
  next
    case True
    let ?it = "iteration rnd ctx e fn i w"
    show ?thesis
    proof (cases "fst ?it")
      case None
      then have fails: "fn (calls w) e \<noteq> None"
        by (auto simp: iteration_result split: if_splits)
      have L: "retryLoop1 rnd ctx e fn n i w = retryLoop1 rnd ctx e fn n (incr i) (snd ?it)"
        using True None by (simp add: retryLoop1_step)
      have c1: "calls (snd ?it) = calls w + 1" by (rule iteration_calls)
      note IH = "1.IH" [OF True prod.collapse None]
      let ?R = "retryLoop1 rnd ctx e fn n (incr i) (snd ?it)"
      have a: "calls w \<le> calls (snd ?R)" and lt: "calls w < calls (snd ?R)"
        using IH c1 by simp_all
      have b: "fst ?R = Return None \<and> calls (snd ?R) = k + 1"
        if "calls w \<le> k" "k < calls (snd ?R)" "fn k e = None" for k
      proof -
        have "k \<noteq> calls w" using that(3) fails by auto
        then have "calls (snd ?it) \<le> k" using that(1) c1 by simp
        then show ?thesis using IH that by blast
      qed
      have c: "fn (calls (snd ?R) - 1) e = None" if "fst ?R = Return None"
        using IH that by blast
      have d: "fn (calls (snd ?R) - 1) e \<noteq> None \<and> ctx (waits (snd ?R))"
        if "fst ?R = Return Timeout"
        using IH that by blast
      show ?thesis
        unfolding L using a lt b c d by blast
    next
      case (Some r)
      have L: "retryLoop1 rnd ctx e fn n i w = (r, snd ?it)"
        using True Some by (simp add: retryLoop1_step)
      have c1: "calls (snd ?it) = calls w + 1" by (rule iteration_calls)
      have w1: "waits (snd ?it) = waits w" using Some by (simp add: iteration_waits)
      have b: "r = Return None \<and> calls (snd ?it) = k + 1"
        if "calls w \<le> k" "k < calls (snd ?it)" "fn k e = None" for k
      proof -
        have "k = calls w" using that(1,2) c1 by simp
        then show ?thesis using that(3) Some c1 by (simp add: iteration_result)
      qed
      have c: "fn (calls w) e = None" if "r = Return None"
        using Some that by (auto simp: iteration_result Timeout_def split: if_splits)
      have d: "fn (calls w) e \<noteq> None \<and> ctx (waits w)" if "r = Return Timeout"
        using Some that by (auto simp: iteration_result Timeout_def split: if_splits)
      show ?thesis
        unfolding L using b c d c1 w1 by auto
    qed
  qed
qed

text \<open>
  The backoffs the 1-indexed loop computes from index \<open>i\<close> on are those of the indices
  \<open>i, i + 1, \<dots>\<close>, one per invocation, less one when the last invocation succeeded. At
  the wrapped index the backoff is 0, which is also what the formula gives for \<open>2 ^ 63\<close>.
\<close>

lemma backoffAt_wrapped: "backoffAt MinInt64 = backoffAt (MaxInt64 + 1)"
  by (simp add: backoffAt_def pow2_def MinInt64_def MaxInt64_def Second_def)

lemma retryLoop1_backoffs:
  "i \<le> MaxInt64 \<Longrightarrow>
   \<exists>m. backoffs (snd (retryLoop1 rnd ctx e fn n i w)) =
         backoffs w @ map (\<lambda>k. backoffAt (i + int k)) [0..<m] \<and>
       m + calls w + (if fst (retryLoop1 rnd ctx e fn n i w) = Return None then 1 else 0) =
         calls (snd (retryLoop1 rnd ctx e fn n i w)) \<and>
       (i \<le> 0 \<longrightarrow> m \<le> 1)"
proof (induction rnd ctx e fn n i w rule: retryLoop1.induct)
  case (1 rnd ctx e fn n i w)
  show ?case
  proof (cases "i \<le> n")
    case False
    then show ?thesis by (simp add: retryLoop1_exit RetriesExhausted_def)
  next
    case True
    let ?it = "iteration rnd ctx e fn i w"
    show ?thesis
    proof (cases "fst ?it")
      case None
      then have fails: "fn (calls w) e \<noteq> None" and pos: "0 < i"
        by (auto simp: iteration_result split: if_splits)
      let ?R = "retryLoop1 rnd ctx e fn n (incr i) (snd ?it)"
      have L: "retryLoop1 rnd ctx e fn n i w = ?R"
        using True None by (simp add: retryLoop1_step)
      have "incr i \<le> MaxInt64" using "1.prems" by (rule incr_le_MaxInt64)
      from "1.IH" [OF True prod.collapse None this]
      obtain m where m: "backoffs (snd ?R) =
           backoffs (snd ?it) @ map (\<lambda>k. backoffAt (incr i + int k)) [0..<m]"
        and c: "m + calls (snd ?it) + (if fst ?R = Return None then 1 else 0) = calls (snd ?R)"
        and small: "incr i \<le> 0 \<longrightarrow> m \<le> 1"
        by blast
      have tl: "map (\<lambda>k. backoffAt (incr i + int k)) [0..<m] =
          map (\<lambda>k. backoffAt (i + 1 + int k)) [0..<m]"
      proof (cases "i < MaxInt64")
        case True
        then show ?thesis by (simp add: incr_below)
      next
        case False
        then have i: "i = MaxInt64" using "1.prems" by simp
        then have inc: "incr i = MinInt64" by (simp add: incr_def)
        then have "m \<le> 1" using small by (simp add: MinInt64_def)
        then have "m = 0 \<or> m = 1" by auto
        then show ?thesis
          using inc i backoffAt_wrapped by auto
      qed
      have "map (\<lambda>k. backoffAt (i + int k)) [0..<Suc m] =
            backoffAt i # map (\<lambda>k. backoffAt (i + 1 + int k)) [0..<m]"
        by (simp add: map_upt_Suc add.commute add.left_commute del: upt_Suc)
      then have "backoffs (snd ?R) = backoffs w @ map (\<lambda>k. backoffAt (i + int k)) [0..<Suc m]"
        using fails m tl by (simp add: iteration_backoffs)
      moreover have "Suc m + calls w + (if fst ?R = Return None then 1 else 0) = calls (snd ?R)"
        using c by (simp add: iteration_calls)
      moreover have "i \<le> 0 \<longrightarrow> Suc m \<le> 1" using pos by simp
      ultimately show ?thesis unfolding L by blast
    next
      case (Some r)
      have L: "retryLoop1 rnd ctx e fn n i w = (r, snd ?it)"
        using True Some by (simp add: retryLoop1_step)
      show ?thesis
      proof (cases "fn (calls w) e = None")
        case True
        with Some have "r = Return None" by (simp add: iteration_result)
        then have "backoffs (snd ?it) = backoffs w @ map (\<lambda>k. backoffAt (i + int k)) [0..<0] \<and>
           0 + calls w + (if r = Return None then 1 else 0) = calls (snd ?it) \<and>
           (i \<le> 0 \<longrightarrow> (0::nat) \<le> 1)"
          using True by (simp add: iteration_backoffs iteration_calls)
        then show ?thesis unfolding L by (simp only: fst_conv snd_conv) blast
      next
        case False
        with Some have "r \<noteq> Return None"
          by (auto simp: iteration_result Timeout_def split: if_splits)
        then have "backoffs (snd ?it) =
             backoffs w @ map (\<lambda>k. backoffAt (i + int k)) [0..<Suc 0] \<and>
           Suc 0 + calls w + (if r = Return None then 1 else 0) = calls (snd ?it) \<and>
           (i \<le> 0 \<longrightarrow> Suc 0 \<le> 1)"
          using False by (simp add: iteration_backoffs iteration_calls)
        then show ?thesis unfolding L by (simp only: fst_conv snd_conv) blast
      qed
    qed
  qed
qed

lemma retry1_backoffs_nth:
  assumes "k < length (backoffs (snd (exponentialBackOffRetry1 rnd ctx e fn n world0)))"
  shows "backoffs (snd (exponentialBackOffRetry1 rnd ctx e fn n world0)) ! k =
           backoffAt (int k + 1)"
proof -
  have "1 \<le> MaxInt64" by (simp add: MaxInt64_def)
  then obtain m where m: "backoffs (snd (retryLoop1 rnd ctx e fn n 1 world0)) =
      backoffs world0 @ map (\<lambda>k. backoffAt (1 + int k)) [0..<m]"
    using retryLoop1_backoffs [of 1 rnd ctx e fn n world0] by blast
  then show ?thesis
    using assms by (simp add: exponentialBackOffRetry1_def world0_def add.commute)
qed

lemma retry0_first_backoff:
  assumes "fn 0 e \<noteq> None" and "1 \<le> n"
  shows "backoffs (snd (exponentialBackOffRetry0 rnd ctx e fn n world0)) = [2 * Second]"
  using assms
  by (simp add: exponentialBackOffRetry0_def retryLoop0_step iteration_result iteration_backoffs
      world0_def backoffAt_def pow2_def)

lemma retry1_first_backoff:
  assumes "fn 0 e \<noteq> None" and "1 \<le> n"
  shows "take 1 (backoffs (snd (exponentialBackOffRetry1 rnd ctx e fn n world0))) = [4 * Second]"
proof -
  let ?it = "iteration rnd ctx e fn 1 world0"
  have b1: "backoffs (snd ?it) = [backoffAt 1]"
    using assms by (simp add: iteration_backoffs world0_def)
  have "take 1 (backoffs (snd (retryLoop1 rnd ctx e fn n 1 world0))) = [backoffAt 1]"
  proof (cases "fst ?it")
    case None
    have "incr 1 \<le> MaxInt64" by (simp add: incr_def MaxInt64_def)
    then obtain m where "backoffs (snd (retryLoop1 rnd ctx e fn n (incr 1) (snd ?it))) =
        backoffs (snd ?it) @ map (\<lambda>k. backoffAt (incr 1 + int k)) [0..<m]"
      using retryLoop1_backoffs [of "incr 1" rnd ctx e fn n "snd ?it"] by blast
    then show ?thesis
      using None assms(2) b1 by (simp add: retryLoop1_step)
  next
    case (Some r)
    then show ?thesis
      using assms(2) b1 by (simp add: retryLoop1_step)
  qed
  moreover have "backoffAt 1 = 4 * Second"
    by (simp add: backoffAt_def pow2_def)
  ultimately show ?thesis
    by (simp add: exponentialBackOffRetry1_def)
qed

subsection \<open>Backoff arithmetic in 64 bits\<close>

lemma backoffAt_as_int:
  "0 \<le> i \<Longrightarrow> i < 63 \<Longrightarrow> backoffAt i = word_of_int (2000000000 * 2 ^ nat i)"
  by (simp add: backoffAt_def pow2_def Second_def)

lemma sint_backoffAt:
  assumes "0 \<le> i" and "i \<le> 32"
  shows "sint (backoffAt i) = 2000000000 * 2 ^ nat i"
proof -
  have "(2::int) ^ nat i \<le> 2 ^ 32"
    using assms by (intro power_increasing) auto
  then have hi: "2000000000 * (2::int) ^ nat i < 2 ^ 63" by simp
  have "(0::int) \<le> 2000000000 * 2 ^ nat i" by simp
  then have lo: "- (2 ^ 63) \<le> 2000000000 * (2::int) ^ nat i"
    by (rule order_trans [rotated]) simp
  have eq: "backoffAt i = word_of_int (2000000000 * 2 ^ nat i)"
    using assms by (intro backoffAt_as_int) auto
  have "sint (backoffAt i) = signed_take_bit (LENGTH(64) - 1) (2000000000 * 2 ^ nat i)"
    unfolding eq by (rule sint_sbintrunc')
  also have "LENGTH(64) - 1 = (63::nat)" by simp
  also have "signed_take_bit 63 (2000000000 * (2::int) ^ nat i) = 2000000000 * 2 ^ nat i"
    using lo hi by (rule signed_take_bit_int_eq_self)
  finally show ?thesis .
qed

subsection \<open>Send and the builder\<close>

lemma Send_valid:
  "email_validate e = None \<Longrightarrow>
   Send eng rnd net e ctx n w = eng rnd ctx e (sendEmail net) n w"
  by (simp add: Send_def sendBy_def gomailSender_Send_def)

lemma Send_content_missing:
  "content e = [] \<Longrightarrow> Send eng rnd net e ctx n w = (Return EmptyContent, w)"
  by (simp add: Send_def sendBy_def gomailSender_Send_def email_validate_def EmptyContent_def)

lemma mail0_valid: "email_validate mail0 = None"
  by (simp add: email_validate_def mail0_def email_with_def)

lemma ConnectionDetails_validate_nil: "ConnectionDetails_validate c = None"
  by (simp add: ConnectionDetails_validate_def Let_def)

lemma getMessage_embedded: "msg_embedded (getMessage e) = imagesToEmbed e"
proof -
  have "msg_embedded (foldl Embed gm xs) = msg_embedded gm @ xs" for gm xs
    by (induction xs arbitrary: gm) (simp_all add: Embed_def)
  then show ?thesis
    by (simp add: getMessage_def Let_def SetHeader_def SetBody_def NewMessage_def)
qed

lemma getMessage_attachments: "msg_attachments (getMessage e) = []"
proof -
  have "msg_attachments (foldl Embed gm xs) = msg_attachments gm" for gm xs
    by (induction xs arbitrary: gm) (simp_all add: Embed_def)
  then show ?thesis
    by (simp add: getMessage_def Let_def SetHeader_def SetBody_def NewMessage_def)
qed

lemma getMessage0_embedded: "msg_embedded (getMessage0 e) = imagesToEmbed e"
proof -
  have "msg_embedded (foldl Embed gm xs) = msg_embedded gm @ xs" for gm xs
    by (induction xs arbitrary: gm) (simp_all add: Embed_def)
  then show ?thesis
    by (simp add: getMessage0_def Let_def SetHeader_def SetBody_def NewMessage_def)
qed

lemma getMessage0_attachments: "msg_attachments (getMessage0 e) = []"
proof -
  have "msg_attachments (foldl Embed gm xs) = msg_attachments gm" for gm xs
    by (induction xs arbitrary: gm) (simp_all add: Embed_def)
  then show ?thesis
    by (simp add: getMessage0_def Let_def SetHeader_def SetBody_def NewMessage_def)
qed

section \<open>Construction (C1)\<close>

text \<open>
  C1. The spec asks that \<open>New\<close> fail for connection details with an empty host, user or
  password, or a port that is not positive. \<open>ConnectionDetails.validate\<close> builds the error
  string and then returns \<open>nil\<close>, so \<open>New\<close> hands out an initialized email for every
  input: here for the input with all four fields invalid.
\<close>

theorem New_accepts_invalid_connection:
  "New \<lparr>SmtpHost = [], SmtpPort = - 1, SmtpUser = [], SmtpPassword = []\<rparr> =
     Inr (email_with (NewDialer [] (- 1) [] [])) \<and>
   New c = Inr (email_with (NewDialer (SmtpHost c) (SmtpPort c) (SmtpUser c) (SmtpPassword c)))"
  by (simp add: New_def ConnectionDetails_validate_nil)

section \<open>Retry count (C2)\<close>

text \<open>
  C2, as amended. When every attempt fails, \<open>ctx.Done()\<close> wins no \<open>select\<close>, and \<open>N\<close> is
  below the largest \<open>int\<close>, the 1-indexed loop invokes \<open>fn\<close> exactly \<open>N\<close> times (\<open>nat n\<close>,
  which is \<open>n\<close> for \<open>n \<ge> 0\<close>) and returns "retries are exhausted". With \<open>N = 0\<close> both
  loops return that error at once, with no invocation, whatever the context and the
  attempt function.
\<close>

theorem retries_exhausted_after_n_attempts:
  assumes "\<forall>k. fn k e \<noteq> None" and "\<forall>k. \<not> ctx k" and "n < MaxInt64"
  shows "fst (exponentialBackOffRetry1 rnd ctx e fn n world0) = Return RetriesExhausted \<and>
         calls (snd (exponentialBackOffRetry1 rnd ctx e fn n world0)) = nat n \<and>
         exponentialBackOffRetry1 rnd ctx' e fn' 0 world0 = (Return RetriesExhausted, world0) \<and>
         exponentialBackOffRetry0 rnd ctx' e fn' 0 world0 = (Return RetriesExhausted, world0)"
  using assms retryLoop1_exhausts [of fn e ctx 1 n rnd world0]
  by (simp add: exponentialBackOffRetry1_def exponentialBackOffRetry0_def retryLoop1_exit
      retryLoop0_exit world0_def)

text \<open>C2, witness: three retries against a network that is down, never cancelled.\<close>

theorem retries_exhausted_after_n_attempts_witness:
  "(\<forall>k. always_fails k mail0 \<noteq> None) \<and> (\<forall>k. \<not> never_cancelled k) \<and> 3 < MaxInt64 \<and>
   fst (exponentialBackOffRetry1 rnd0 never_cancelled mail0 always_fails 3 world0) =
     Return RetriesExhausted \<and>
   calls (snd (exponentialBackOffRetry1 rnd0 never_cancelled mail0 always_fails 3 world0)) = 3"
proof -
  have h1: "\<forall>k. always_fails k mail0 \<noteq> None" by (simp add: always_fails_def)
  have h2: "\<forall>k. \<not> never_cancelled k" by (simp add: never_cancelled_def)
  have h3: "3 < MaxInt64" by (simp add: MaxInt64_def)
  show ?thesis
    using h1 h2 h3
      retries_exhausted_after_n_attempts [of always_fails mail0 never_cancelled 3 rnd0]
    by simp
qed

text \<open>
  C2, counterexample to the statement of the spec (every always-failing attempt function
  ends in RetriesExhausted after \<open>N\<close> invocations): with \<open>N = 1\<close> and a context cancelled
  during the first wait, the loop returns "send email timeout" after one invocation; and
  with \<open>N\<close> the largest \<open>int\<close> the loop does not return "retries are exhausted" at all.
\<close>

theorem retry_timeout_counterexample:
  "fst (exponentialBackOffRetry1 rnd0 cancelled mail0 always_fails 1 world0) = Return Timeout \<and>
   fst (exponentialBackOffRetry1 rnd0 cancelled mail0 always_fails 1 world0) \<noteq>
     Return RetriesExhausted \<and>
   calls (snd (exponentialBackOffRetry1 rnd0 cancelled mail0 always_fails 1 world0)) = 1 \<and>
   fst (exponentialBackOffRetry1 rnd0 never_cancelled mail0 always_fails MaxInt64 world0) \<noteq>
     Return RetriesExhausted"
proof -
  have "fst (exponentialBackOffRetry1 rnd0 cancelled mail0 always_fails 1 world0) =
      Return Timeout"
    by (simp add: exponentialBackOffRetry1_def retryLoop1_step iteration_result
        always_fails_def cancelled_def world0_def)
  moreover have "Return Timeout \<noteq> Return RetriesExhausted"
    by (simp add: Timeout_def RetriesExhausted_def)
  moreover have
    "calls (snd (exponentialBackOffRetry1 rnd0 cancelled mail0 always_fails 1 world0)) = 1"
    by (simp add: exponentialBackOffRetry1_def retryLoop1_step iteration_result iteration_calls
        always_fails_def cancelled_def world0_def)
  moreover have "(1::int) \<le> MaxInt64" by (simp add: MaxInt64_def)
  then have
    "fst (exponentialBackOffRetry1 rnd0 never_cancelled mail0 always_fails MaxInt64 world0) \<noteq>
      Return RetriesExhausted"
    unfolding exponentialBackOffRetry1_def by (rule retryLoop1_MaxInt64) simp
  ultimately show ?thesis by simp
qed

section \<open>Backoff values (C3)\<close>

text \<open>
  C3, as amended. In the 1-indexed loop the \<open>k\<close>-th computed backoff (counting from 0) is
  the one of index \<open>k + 1\<close>: \<open>2 s * 2 ^ (k + 1)\<close> nanoseconds as long as \<open>k < 32\<close>, so
  4 s first, and each one below that bound is smaller than the next. From index 33 on
  the \<open>int64\<close> product wraps. A backoff is computed after every failed attempt: there are
  as many as invocations, less one when the last invocation succeeded. The 0-indexed loop
  of src/helper.go computes 2 s after its first failed attempt.
\<close>

theorem backoff_one_indexed:
  "(\<forall>k < length (backoffs (snd (exponentialBackOffRetry1 rnd ctx e fn n world0))).
      backoffs (snd (exponentialBackOffRetry1 rnd ctx e fn n world0)) ! k =
        backoffAt (int k + 1) \<and>
      (k < 32 \<longrightarrow>
         sint (backoffs (snd (exponentialBackOffRetry1 rnd ctx e fn n world0)) ! k) =
           2000000000 * 2 ^ (k + 1)) \<and>
      (Suc k < length (backoffs (snd (exponentialBackOffRetry1 rnd ctx e fn n world0))) \<and>
       Suc k < 32 \<longrightarrow>
         sint (backoffs (snd (exponentialBackOffRetry1 rnd ctx e fn n world0)) ! k) <
         sint (backoffs (snd (exponentialBackOffRetry1 rnd ctx e fn n world0)) ! Suc k))) \<and>
   length (backoffs (snd (exponentialBackOffRetry1 rnd ctx e fn n world0))) +
     (if fst (exponentialBackOffRetry1 rnd ctx e fn n world0) = Return None then 1 else 0) =
     calls (snd (exponentialBackOffRetry1 rnd ctx e fn n world0)) \<and>
   (fn 0 e \<noteq> None \<and> 1 \<le> n \<longrightarrow>
      take 1 (backoffs (snd (exponentialBackOffRetry0 rnd ctx e fn n world0))) = [2 * Second])"
proof -
  let ?R = "exponentialBackOffRetry1 rnd ctx e fn n world0"
  have nth: "backoffs (snd ?R) ! k = backoffAt (int k + 1)"
    if "k < length (backoffs (snd ?R))" for k
    using that by (rule retry1_backoffs_nth)
  have val: "sint (backoffs (snd ?R) ! k) = 2000000000 * 2 ^ (k + 1)"
    if "k < length (backoffs (snd ?R))" "k < 32" for k
  proof -
    have "nat (int k + 1) = k + 1" by simp
    then show ?thesis
      using that sint_backoffAt [of "int k + 1"] by (simp add: nth)
  qed
  have inc: "sint (backoffs (snd ?R) ! k) < sint (backoffs (snd ?R) ! Suc k)"
    if "Suc k < length (backoffs (snd ?R))" "Suc k < 32" for k
    using that val [of k] val [of "Suc k"] by simp
  obtain m where m: "backoffs (snd (retryLoop1 rnd ctx e fn n 1 world0)) =
      backoffs world0 @ map (\<lambda>k. backoffAt (1 + int k)) [0..<m]"
    and c: "m + calls world0 +
        (if fst (retryLoop1 rnd ctx e fn n 1 world0) = Return None then 1 else 0) =
        calls (snd (retryLoop1 rnd ctx e fn n 1 world0))"
    using retryLoop1_backoffs [of 1 rnd ctx e fn n world0] by (auto simp: MaxInt64_def)
  have len: "length (backoffs (snd ?R)) + (if fst ?R = Return None then 1 else 0) =
      calls (snd ?R)"
    using m c by (simp add: exponentialBackOffRetry1_def world0_def)
  have zero: "take 1 (backoffs (snd (exponentialBackOffRetry0 rnd ctx e fn n world0))) =
      [2 * Second]" if "fn 0 e \<noteq> None" "1 \<le> n"
  proof -
    have "backoffs (snd (exponentialBackOffRetry0 rnd ctx e fn n world0)) = [2 * Second]"
      using that by (rule retry0_first_backoff)
    then show ?thesis by simp
  qed
  show ?thesis using nth val inc len zero by blast
qed

text \<open>
  C3, witness: three failed attempts give 4 s, then two larger backoffs; in the 0-indexed
  loop the first is 2 s.
\<close>

theorem backoff_one_indexed_witness:
  "length (backoffs (snd
     (exponentialBackOffRetry1 rnd0 never_cancelled mail0 always_fails 3 world0))) = 3 \<and>
   sint (backoffs (snd
     (exponentialBackOffRetry1 rnd0 never_cancelled mail0 always_fails 3 world0)) ! 0) =
     4000000000 \<and>
   sint (backoffs (snd
     (exponentialBackOffRetry1 rnd0 never_cancelled mail0 always_fails 3 world0)) ! 0) <
   sint (backoffs (snd
     (exponentialBackOffRetry1 rnd0 never_cancelled mail0 always_fails 3 world0)) ! 1) \<and>
   sint (backoffs (snd
     (exponentialBackOffRetry1 rnd0 never_cancelled mail0 always_fails 3 world0)) ! 1) <
   sint (backoffs (snd
     (exponentialBackOffRetry1 rnd0 never_cancelled mail0 always_fails 3 world0)) ! 2) \<and>
   always_fails 0 mail0 \<noteq> None \<and> (1::int) \<le> 3 \<and>
   take 1 (backoffs (snd
     (exponentialBackOffRetry0 rnd0 never_cancelled mail0 always_fails 3 world0))) =
     [2 * Second]"
proof -
  let ?R = "exponentialBackOffRetry1 rnd0 never_cancelled mail0 always_fails 3 world0"
  have "calls (snd ?R) = 3" and "fst ?R \<noteq> Return None"
    using retryLoop1_exhausts [of always_fails mail0 never_cancelled 1 3 rnd0 world0]
    by (simp_all add: exponentialBackOffRetry1_def always_fails_def never_cancelled_def
        world0_def RetriesExhausted_def MaxInt64_def)
  then have len: "length (backoffs (snd ?R)) = 3"
    using backoff_one_indexed [of rnd0 never_cancelled mail0 always_fails 3] by simp
  note T = backoff_one_indexed [of rnd0 never_cancelled mail0 always_fails 3,
      THEN conjunct1, rule_format]
  have k0: "sint (backoffs (snd ?R) ! 0) = 4000000000"
    and k01: "sint (backoffs (snd ?R) ! 0) < sint (backoffs (snd ?R) ! Suc 0)"
    using T [of 0, THEN conjunct2, THEN conjunct1] T [of 0, THEN conjunct2, THEN conjunct2] len
    by simp_all
  have k12: "sint (backoffs (snd ?R) ! Suc 0) < sint (backoffs (snd ?R) ! Suc (Suc 0))"
    using T [of "Suc 0", THEN conjunct2, THEN conjunct2] len by simp
  have h: "always_fails 0 mail0 \<noteq> None" by (simp add: always_fails_def)
  then have z: "take 1 (backoffs (snd
      (exponentialBackOffRetry0 rnd0 never_cancelled mail0 always_fails 3 world0))) =
      [2 * Second]"
    using backoff_one_indexed [of rnd0 never_cancelled mail0 always_fails 3,
        THEN conjunct2, THEN conjunct2]
    by simp
  show ?thesis
    using len k0 k01 k12 h z by (simp add: numeral_2_eq_2)
qed

text \<open>
  C3, counterexample to the statement of the spec (first backoff 4 s, strictly increasing on
  every iteration): the 0-indexed loop of src/helper.go computes 2 s after its first
  failed attempt, and the backoff of index 33 is below the one of index 32.
\<close>

theorem backoff_zero_indexed_counterexample:
  "backoffs (snd (exponentialBackOffRetry0 rnd0 never_cancelled mail0 always_fails 1 world0)) =
     [2 * Second] \<and>
   sint (2 * Second) = 2000000000 \<and>
   sint (backoffAt 33) < sint (backoffAt 32)"
proof -
  have "always_fails 0 mail0 \<noteq> None" by (simp add: always_fails_def)
  then have "backoffs (snd
      (exponentialBackOffRetry0 rnd0 never_cancelled mail0 always_fails 1 world0)) = [2 * Second]"
    by (intro retry0_first_backoff) simp_all
  moreover have "sint (2 * Second) = 2000000000" by (simp add: Second_def)
  moreover have "sint (backoffAt 33) < sint (backoffAt 32)"
    by (simp add: backoffAt_def pow2_def Second_def)
  ultimately show ?thesis by blast
qed

section \<open>The jitter draw (C4)\<close>

text \<open>
  C4. The spec asks that the bound of the jitter draw be positive on every iteration. In
  src/helper.go the loop index starts at 0, so the first failed attempt is followed by
  \<open>rand.Int63n(0)\<close>, which panics: one invocation, one backoff computed, no wait. The
  1-indexed copy does not, for any bound below the largest \<open>int\<close>
  (\<open>retryLoop1_no_panic\<close>), and its first jitter is 0 (\<open>first_jitter_zero\<close>).
\<close>

theorem jitter_draw_panics_at_index_0:
  "exponentialBackOffRetry0 rnd ctx e always_fails 1 world0 =
     (Panic ''invalid argument to Int63n'', world0\<lparr>calls := 1, backoffs := [2 * Second]\<rparr>)"
  by (simp add: exponentialBackOffRetry0_def retryLoop0_step iteration_def Int63n_def
      always_fails_def world0_def backoffAt_def pow2_def)

section \<open>Cancellation (C5)\<close>

text \<open>
  C5, as amended. For a mail that passes validation and \<open>maxRetries \<ge> 1\<close>, with the
  1-indexed loop: when the first attempt fails and the context is cancelled before the
  first backoff wait elapses, \<open>Send\<close> returns "send email timeout" after one invocation
  and no completed wait. In every run the invocations exceed the completed waits by at
  most one. The timeout is returned only from the wait that follows a failed attempt:
  then the last invocation failed, \<open>ctx.Done()\<close> won the \<open>select\<close> entered after it, and
  there is one invocation more than completed waits. The context is not consulted around
  the attempt itself: whenever an invocation that was made succeeded, be it the first or
  a later one, it is the last one and \<open>Send\<close> returns \<open>nil\<close>, whatever \<open>ctx\<close> is; and
  \<open>nil\<close> is returned only then.
\<close>

theorem Send_cancelled_during_first_wait:
  assumes "email_validate e = None" and "1 \<le> n"
  shows "(sendEmail net 0 e \<noteq> None \<and> ctx 0 \<longrightarrow>
            fst (Send exponentialBackOffRetry1 rnd net e ctx n world0) = Return Timeout \<and>
            calls (snd (Send exponentialBackOffRetry1 rnd net e ctx n world0)) = 1 \<and>
            waits (snd (Send exponentialBackOffRetry1 rnd net e ctx n world0)) = 0) \<and>
         calls (snd (Send exponentialBackOffRetry1 rnd net e ctx n world0)) \<le>
           waits (snd (Send exponentialBackOffRetry1 rnd net e ctx n world0)) + 1 \<and>
         (fst (Send exponentialBackOffRetry1 rnd net e ctx n world0) = Return Timeout \<longrightarrow>
            calls (snd (Send exponentialBackOffRetry1 rnd net e ctx n world0)) =
              waits (snd (Send exponentialBackOffRetry1 rnd net e ctx n world0)) + 1 \<and>
            sendEmail net (waits (snd (Send exponentialBackOffRetry1 rnd net e ctx n world0))) e
              \<noteq> None \<and>
            ctx (waits (snd (Send exponentialBackOffRetry1 rnd net e ctx n world0)))) \<and>
         (sendEmail net 0 e = None \<longrightarrow>
            fst (Send exponentialBackOffRetry1 rnd net e ctx n world0) = Return None \<and>
            calls (snd (Send exponentialBackOffRetry1 rnd net e ctx n world0)) = 1) \<and>
         (\<forall>k < calls (snd (Send exponentialBackOffRetry1 rnd net e ctx n world0)).
            sendEmail net k e = None \<longrightarrow>
              fst (Send exponentialBackOffRetry1 rnd net e ctx n world0) = Return None \<and>
              calls (snd (Send exponentialBackOffRetry1 rnd net e ctx n world0)) = k + 1) \<and>
         (fst (Send exponentialBackOffRetry1 rnd net e ctx n world0) = Return None \<longrightarrow>
            0 < calls (snd (Send exponentialBackOffRetry1 rnd net e ctx n world0)) \<and>
            sendEmail net
              (calls (snd (Send exponentialBackOffRetry1 rnd net e ctx n world0)) - 1) e = None)"
proof -
  let ?L = "retryLoop1 rnd ctx e (sendEmail net) n 1 world0"
  have S: "Send exponentialBackOffRetry1 rnd net e ctx n world0 = ?L"
    using assms(1) by (simp add: Send_valid exponentialBackOffRetry1_def)
  have c0: "calls world0 = 0" and v0: "waits world0 = 0" by (simp_all add: world0_def)
  have first: "fst ?L = Return Timeout \<and> calls (snd ?L) = 1 \<and> waits (snd ?L) = 0"
    if "sendEmail net 0 e \<noteq> None" "ctx 0"
    using that assms(2)
    by (auto simp: retryLoop1_step iteration_result iteration_calls iteration_waits c0 v0)
  have succ: "fst ?L = Return None \<and> calls (snd ?L) = 1" if "sendEmail net 0 e = None"
    using that assms(2) by (simp add: retryLoop1_step iteration_result iteration_calls c0)
  have cw: "calls (snd ?L) =
      waits (snd ?L) + (if fst ?L = Return RetriesExhausted then 0 else 1)"
    using retryLoop1_calls_waits [of rnd ctx e "sendEmail net" n 1 world0] by (simp add: c0 v0)
  have le: "calls (snd ?L) \<le> waits (snd ?L) + 1"
    using cw by (simp split: if_splits)
  note out = retryLoop1_outcome [of world0 rnd ctx e "sendEmail net" n 1, unfolded c0]
  have tmo: "calls (snd ?L) = waits (snd ?L) + 1 \<and>
      sendEmail net (waits (snd ?L)) e \<noteq> None \<and> ctx (waits (snd ?L))"
    if t: "fst ?L = Return Timeout"
  proof -
    have eq: "calls (snd ?L) = waits (snd ?L) + 1"
      using cw t by (simp add: Timeout_def RetriesExhausted_def)
    have "sendEmail net (calls (snd ?L) - 1) e \<noteq> None" and "ctx (waits (snd ?L))"
      using out t by blast+
    then show ?thesis using eq by simp
  qed
  have any: "fst ?L = Return None \<and> calls (snd ?L) = k + 1"
    if "k < calls (snd ?L)" "sendEmail net k e = None" for k
    using out that by blast
  have nil: "0 < calls (snd ?L) \<and> sendEmail net (calls (snd ?L) - 1) e = None"
    if "fst ?L = Return None"
    using out that by blast
  show ?thesis
    unfolding S using first succ le tmo any nil by blast
qed

text \<open>
  C5, witness: three retries and the context cancelled, with the network down, with a
  network that accepts the first attempt, and, the context cancelled from the third wait
  on, with a network that accepts the third attempt.
\<close>

theorem Send_cancelled_during_first_wait_witness:
  "email_validate mail0 = None \<and> (1::int) \<le> 3 \<and> sendEmail net_down 0 mail0 \<noteq> None \<and>
   cancelled 0 \<and>
   fst (Send exponentialBackOffRetry1 rnd0 net_down mail0 cancelled 3 world0) = Return Timeout \<and>
   calls (snd (Send exponentialBackOffRetry1 rnd0 net_down mail0 cancelled 3 world0)) = 1 \<and>
   waits (snd (Send exponentialBackOffRetry1 rnd0 net_down mail0 cancelled 3 world0)) = 0 \<and>
   sendEmail net_up 0 mail0 = None \<and>
   fst (Send exponentialBackOffRetry1 rnd0 net_up mail0 cancelled 3 world0) = Return None \<and>
   calls (snd (Send exponentialBackOffRetry1 rnd0 net_up mail0 cancelled 3 world0)) = 1 \<and>
   2 < calls (snd (Send exponentialBackOffRetry1 rnd0 net_third mail0 cancelled_late 3 world0)) \<and>
   sendEmail net_third 2 mail0 = None \<and>
   fst (Send exponentialBackOffRetry1 rnd0 net_third mail0 cancelled_late 3 world0) =
     Return None \<and>
   calls (snd (Send exponentialBackOffRetry1 rnd0 net_third mail0 cancelled_late 3 world0)) = 3"
proof -
  have h: "email_validate mail0 = None" "(1::int) \<le> 3" by (simp_all add: mail0_valid)
  have g: "sendEmail net_down 0 mail0 \<noteq> None" "cancelled 0" "sendEmail net_up 0 mail0 = None"
    "sendEmail net_third 2 mail0 = None"
    by (simp_all add: cancelled_def sendEmail_def net_down_def net_up_def net_third_def)
  have "Send exponentialBackOffRetry1 rnd0 net_third mail0 cancelled_late 3 world0 =
      retryLoop1 rnd0 cancelled_late mail0 (sendEmail net_third) 3 1 world0"
    by (simp add: Send_valid mail0_valid exponentialBackOffRetry1_def)
  moreover have
    "calls (snd (retryLoop1 rnd0 cancelled_late mail0 (sendEmail net_third) 3 1 world0)) = 3"
    by (simp add: retryLoop1_step iteration_result iteration_calls iteration_waits incr_def
        MaxInt64_def sendEmail_def net_third_def cancelled_late_def world0_def)
  ultimately have r: "2 < calls (snd
      (Send exponentialBackOffRetry1 rnd0 net_third mail0 cancelled_late 3 world0))"
    by simp
  note T = Send_cancelled_during_first_wait [of mail0 3 net_third cancelled_late rnd0,
      OF h, THEN conjunct2, THEN conjunct2, THEN conjunct2, THEN conjunct2, THEN conjunct1,
      rule_format, OF r g(4)]
  note D = Send_cancelled_during_first_wait [of mail0 3 net_down cancelled rnd0,
      OF h, THEN conjunct1, rule_format, OF conjI [OF g(1) g(2)]]
  note U = Send_cancelled_during_first_wait [of mail0 3 net_up cancelled rnd0,
      OF h, THEN conjunct2, THEN conjunct2, THEN conjunct2, THEN conjunct1, rule_format,
      OF g(3)]
  show ?thesis
    using h g r T D U by simp
qed

text \<open>
  C5, counterexample to the statement of the spec (\<open>Send\<close> returns Timeout for every
  always-failing attempt function and cancelled context): with \<open>maxRetries = 0\<close> the
  result is "retries are exhausted", and for a mail without content it is
  "content missing".
\<close>

theorem Send_exhausted_despite_cancel_counterexample:
  "fst (Send exponentialBackOffRetry1 rnd0 net_down mail0 cancelled 0 world0) =
     Return RetriesExhausted \<and>
   fst (Send exponentialBackOffRetry1 rnd0 net_down
     (email_with (NewDialer ''smtp.example.com'' 587 ''u'' ''p'')) cancelled 3 world0) =
     Return EmptyContent"
proof -
  have "content (email_with (NewDialer ''smtp.example.com'' 587 ''u'' ''p'')) = []"
    by (simp add: email_with_def)
  then show ?thesis
    by (simp add: Send_content_missing Send_valid mail0_valid exponentialBackOffRetry1_def
        retryLoop1_exit)
qed

section \<open>Embedded images and attachments (C6)\<close>

text \<open>
  C6. The spec asks that the descriptor embed every image path and attach every
  attachment path. \<open>getMessage\<close>, in either copy, embeds the image paths, in order, and
  attaches nothing: whatever \<open>SetAttachements\<close> stored, the descriptor has no attachment.
\<close>

theorem getMessage_drops_attachments:
  "msg_attachments (getMessage (SetAttachements e files)) = [] \<and>
   msg_attachments (getMessage0 (SetAttachements e files)) = [] \<and>
   msg_embedded (getMessage (SetImagesToEmbed e images)) = images \<and>
   msg_embedded (getMessage0 (SetImagesToEmbed e images)) = images"
  by (simp add: getMessage_attachments getMessage_embedded getMessage0_attachments
      getMessage0_embedded SetImagesToEmbed_def)

section \<open>The two loop variants (C7)\<close>

text \<open>
  C7, as amended. For the same \<open>maxRetries \<ge> 1\<close> and an attempt function whose first
  call fails, the first backoff computed is 2 s in the 0-indexed loop and 4 s in the
  1-indexed loop. For \<open>maxRetries \<le> 0\<close> neither loop makes an attempt or computes a
  backoff: both return "retries are exhausted" at once.
\<close>

theorem retry_variants_initial_backoff:
  assumes "fn 0 e \<noteq> None"
  shows "(1 \<le> n \<longrightarrow>
            take 1 (backoffs (snd (exponentialBackOffRetry0 rnd ctx e fn n world0))) =
              [2 * Second] \<and>
            take 1 (backoffs (snd (exponentialBackOffRetry1 rnd ctx e fn n world0))) =
              [4 * Second]) \<and>
         sint (2 * Second) = 2000000000 \<and> sint (4 * Second) = 4000000000 \<and>
         (n \<le> 0 \<longrightarrow>
            exponentialBackOffRetry0 rnd ctx e fn n world0 = (Return RetriesExhausted, world0) \<and>
            exponentialBackOffRetry1 rnd ctx e fn n world0 = (Return RetriesExhausted, world0))"
proof -
  have "take 1 (backoffs (snd (exponentialBackOffRetry0 rnd ctx e fn n world0))) = [2 * Second]"
    if "1 \<le> n"
  proof -
    have "backoffs (snd (exponentialBackOffRetry0 rnd ctx e fn n world0)) = [2 * Second]"
      using assms that by (rule retry0_first_backoff)
    then show ?thesis by simp
  qed
  moreover have "take 1 (backoffs (snd (exponentialBackOffRetry1 rnd ctx e fn n world0))) =
      [4 * Second]" if "1 \<le> n"
    using assms that by (rule retry1_first_backoff)
  moreover have "sint (2 * Second) = 2000000000" and "sint (4 * Second) = 4000000000"
    by (simp_all add: Second_def)
  moreover have "exponentialBackOffRetry0 rnd ctx e fn n world0 =
      (Return RetriesExhausted, world0)" if "n \<le> 0"
    using that by (simp add: exponentialBackOffRetry0_def retryLoop0_exit)
  moreover have "exponentialBackOffRetry1 rnd ctx e fn n world0 =
      (Return RetriesExhausted, world0)" if "n \<le> 0"
    using that by (simp add: exponentialBackOffRetry1_def retryLoop1_exit)
  ultimately show ?thesis by blast
qed

text \<open>C7, witness: three retries, then none, against a network that is down.\<close>

theorem retry_variants_initial_backoff_witness:
  "always_fails 0 mail0 \<noteq> None \<and> (1::int) \<le> 3 \<and>
   take 1 (backoffs (snd
     (exponentialBackOffRetry0 rnd0 never_cancelled mail0 always_fails 3 world0))) =
     [2 * Second] \<and>
   take 1 (backoffs (snd
     (exponentialBackOffRetry1 rnd0 never_cancelled mail0 always_fails 3 world0))) =
     [4 * Second] \<and>
   (0::int) \<le> 0 \<and>
   exponentialBackOffRetry0 rnd0 never_cancelled mail0 always_fails 0 world0 =
     (Return RetriesExhausted, world0) \<and>
   exponentialBackOffRetry1 rnd0 never_cancelled mail0 always_fails 0 world0 =
     (Return RetriesExhausted, world0)"
proof -
  have h: "always_fails 0 mail0 \<noteq> None" by (simp add: always_fails_def)
  show ?thesis
    using h retry_variants_initial_backoff [of always_fails mail0 3 rnd0 never_cancelled]
      retry_variants_initial_backoff [of always_fails mail0 0 rnd0 never_cancelled]
    by simp
qed

text \<open>
  C7, counterexample to the statement of the spec (the variants differ in attempt count for the
  same \<open>maxRetries\<close>): with \<open>maxRetries = 1\<close> both invoke the attempt function once, and
  with \<open>maxRetries = 0\<close> their results are equal, with no attempt and no backoff.
\<close>

theorem retry_variants_agree_counterexample:
  "calls (snd (exponentialBackOffRetry0 rnd0 never_cancelled mail0 always_fails 1 world0)) =
   calls (snd (exponentialBackOffRetry1 rnd0 never_cancelled mail0 always_fails 1 world0)) \<and>
   exponentialBackOffRetry0 rnd0 never_cancelled mail0 always_fails 0 world0 =
   exponentialBackOffRetry1 rnd0 never_cancelled mail0 always_fails 0 world0"
  by (simp add: exponentialBackOffRetry0_def exponentialBackOffRetry1_def retryLoop0_step
      retryLoop1_step retryLoop0_exit retryLoop1_exit iteration_result iteration_calls
      always_fails_def never_cancelled_def incr_def MaxInt64_def)

section \<open>Empty content (C8)\<close>

text \<open>
  C8. For a mail whose content is the empty string, \<open>Send\<close> returns "content missing"
  and leaves the world as it was, whichever retry engine is linked and whatever it would
  do: the engine is not run, and the attempt function is invoked zero times.
\<close>

theorem Send_empty_content:
  assumes "content e = []"
  shows "Send eng rnd net e ctx n w = (Return EmptyContent, w) \<and>
         calls (snd (Send eng rnd net e ctx n world0)) = 0"
  using assms
  by (simp add: Send_def sendBy_def gomailSender_Send_def email_validate_def EmptyContent_def
      world0_def)

text \<open>C8, witness: the mail as \<open>New\<close> returns it, against a network that would accept.\<close>

theorem Send_empty_content_witness:
  "content (email_with (NewDialer ''smtp.example.com'' 587 ''u'' ''p'')) = [] \<and>
   Send exponentialBackOffRetry1 rnd0 net_third
     (email_with (NewDialer ''smtp.example.com'' 587 ''u'' ''p'')) never_cancelled 3 world0 =
     (Return EmptyContent, world0) \<and>
   calls (snd (Send exponentialBackOffRetry1 rnd0 net_third
     (email_with (NewDialer ''smtp.example.com'' 587 ''u'' ''p'')) never_cancelled 3 world0)) = 0"
proof -
  have h: "content (email_with (NewDialer ''smtp.example.com'' 587 ''u'' ''p'')) = []"
    by (simp add: email_with_def)
  show ?thesis
    using h Send_empty_content [OF h, of exponentialBackOffRetry1 rnd0 net_third
        never_cancelled 3 world0]
    by (simp add: world0_def)
qed

section \<open>Success on the third attempt (C9)\<close>

text \<open>
  C9, as amended. For a mail that passes validation, an attempt function that fails on
  its first two invocations and succeeds on the third, \<open>maxRetries \<ge> 3\<close> and a context
  not cancelled during the first two backoff waits, \<open>Send\<close> with the 1-indexed loop
  returns \<open>nil\<close> after exactly three invocations and two completed waits: none follows
  the success.
\<close>

theorem Send_succeeds_on_third_attempt:
  assumes "email_validate e = None"
    and "sendEmail net 0 e \<noteq> None" and "sendEmail net 1 e \<noteq> None"
    and "sendEmail net 2 e = None"
    and "3 \<le> n" and "\<not> ctx 0" and "\<not> ctx 1"
  shows "fst (Send exponentialBackOffRetry1 rnd net e ctx n world0) = Return None \<and>
         calls (snd (Send exponentialBackOffRetry1 rnd net e ctx n world0)) = 3 \<and>
         waits (snd (Send exponentialBackOffRetry1 rnd net e ctx n world0)) = 2"
proof -
  let ?fn = "sendEmail net"
  let ?w1 = "snd (iteration rnd ctx e ?fn 1 world0)"
  let ?w2 = "snd (iteration rnd ctx e ?fn 2 ?w1)"
  let ?w3 = "snd (iteration rnd ctx e ?fn 3 ?w2)"
  have i2: "incr 1 = 2" and i3: "incr 2 = 3" by (simp_all add: incr_def MaxInt64_def)
  have c0: "calls world0 = 0" and v0: "waits world0 = 0" by (simp_all add: world0_def)
  have r1: "fst (iteration rnd ctx e ?fn 1 world0) = None"
    using assms by (simp add: iteration_result c0 v0)
  have c1: "calls ?w1 = 1" and v1: "waits ?w1 = 1"
    using r1 by (simp_all add: iteration_calls iteration_waits c0 v0)
  have r2: "fst (iteration rnd ctx e ?fn 2 ?w1) = None"
    using assms by (simp add: iteration_result c1 v1)
  have c2: "calls ?w2 = 2" and v2: "waits ?w2 = 2"
    using r1 r2 by (simp_all add: iteration_calls iteration_waits c0 v0)
  have r3: "fst (iteration rnd ctx e ?fn 3 ?w2) = Some (Return None)"
    using assms by (simp add: iteration_result c2)
  have c3: "calls ?w3 = 3" and v3: "waits ?w3 = 2"
    using r1 r2 r3 by (simp_all add: iteration_calls iteration_waits c0 v0)
  have "retryLoop1 rnd ctx e ?fn n 1 world0 = (Return None, ?w3)"
    using \<open>3 \<le> n\<close> r1 r2 r3 by (simp add: retryLoop1_step i2 i3)
  then show ?thesis
    using assms(1) c3 v3 by (simp add: Send_valid exponentialBackOffRetry1_def)
qed

text \<open>C9, witness: five retries allowed, the network accepts the third attempt.\<close>

theorem Send_succeeds_on_third_attempt_witness:
  "email_validate mail0 = None \<and> sendEmail net_third 0 mail0 \<noteq> None \<and>
   sendEmail net_third 1 mail0 \<noteq> None \<and> sendEmail net_third 2 mail0 = None \<and>
   (3::int) \<le> 5 \<and> \<not> never_cancelled 0 \<and> \<not> never_cancelled 1 \<and>
   fst (Send exponentialBackOffRetry1 rnd0 net_third mail0 never_cancelled 5 world0) =
     Return None \<and>
   calls (snd (Send exponentialBackOffRetry1 rnd0 net_third mail0 never_cancelled 5 world0)) = 3 \<and>
   waits (snd (Send exponentialBackOffRetry1 rnd0 net_third mail0 never_cancelled 5 world0)) = 2"
proof -
  have h: "email_validate mail0 = None" "sendEmail net_third 0 mail0 \<noteq> None"
    "sendEmail net_third 1 mail0 \<noteq> None" "sendEmail net_third 2 mail0 = None" "(3::int) \<le> 5"
    "\<not> never_cancelled 0" "\<not> never_cancelled 1"
    by (simp_all add: mail0_valid sendEmail_def net_third_def never_cancelled_def)
  show ?thesis
    using h Send_succeeds_on_third_attempt [of mail0 net_third 5 never_cancelled rnd0] by simp
qed

text \<open>
  C9, counterexample to the statement of the spec (\<open>Send\<close> returns \<open>nil\<close> after three
  invocations for every such attempt function and \<open>maxRetries \<ge> 3\<close>): with the context
  cancelled during the first wait the result is "send email timeout" after one
  invocation, and for a mail without content it is "content missing".
\<close>

theorem Send_cancelled_counterexample:
  "fst (Send exponentialBackOffRetry1 rnd0 net_third mail0 cancelled 3 world0) = Return Timeout \<and>
   calls (snd (Send exponentialBackOffRetry1 rnd0 net_third mail0 cancelled 3 world0)) = 1 \<and>
   fst (Send exponentialBackOffRetry1 rnd0 net_third
     (email_with (NewDialer ''smtp.example.com'' 587 ''u'' ''p'')) never_cancelled 3 world0) =
     Return EmptyContent"
proof -
  have "Send exponentialBackOffRetry1 rnd0 net_third mail0 cancelled 3 world0 =
      retryLoop1 rnd0 cancelled mail0 (sendEmail net_third) 3 1 world0"
    by (simp add: Send_valid mail0_valid exponentialBackOffRetry1_def)
  moreover have "fst (retryLoop1 rnd0 cancelled mail0 (sendEmail net_third) 3 1 world0) =
      Return Timeout"
    by (simp add: retryLoop1_step iteration_result sendEmail_def net_third_def cancelled_def
        world0_def)
  moreover have
    "calls (snd (retryLoop1 rnd0 cancelled mail0 (sendEmail net_third) 3 1 world0)) = 1"
    by (simp add: retryLoop1_step iteration_result iteration_calls sendEmail_def net_third_def
        cancelled_def world0_def)
  moreover have "content (email_with (NewDialer ''smtp.example.com'' 587 ''u'' ''p'')) = []"
    by (simp add: email_with_def)
  ultimately show ?thesis
    by (simp add: Send_content_missing)
qed

section \<open>Unrecognized content type (C10)\<close>

text \<open>
  C10. For a \<open>Content\<close> whose type is neither "html" nor "text", \<open>SetContent\<close> returns
  \<open>nil\<close>, leaves the content field as it was and sets \<open>contentType\<close> to the given string.
  On a mail fresh from \<open>New\<close> the content is therefore still empty, and a later \<open>Send\<close>
  fails with "content missing", before any attempt.
\<close>

theorem SetContent_unrecognized_type:
  assumes "Type c \<noteq> ContentHTML" and "Type c \<noteq> ContentText"
  shows "SetContent processTemplate e c = (None, e\<lparr>contentType := Type c\<rparr>) \<and>
         content (snd (SetContent processTemplate e c)) = content e \<and>
         contentType (snd (SetContent processTemplate e c)) = Type c \<and>
         Send eng rnd net (snd (SetContent processTemplate (email_with d) c)) ctx n world0 =
           (Return EmptyContent, world0)"
  using assms
  by (simp add: SetContent_def Let_def Send_def sendBy_def gomailSender_Send_def
      email_validate_def EmptyContent_def email_with_def)

text \<open>C10, witness: a content of type "markdown".\<close>

theorem SetContent_unrecognized_type_witness:
  "Type unknown_content \<noteq> ContentHTML \<and> Type unknown_content \<noteq> ContentText \<and>
   SetContent no_templates mail0 unknown_content =
     (None, mail0\<lparr>contentType := ''markdown''\<rparr>) \<and>
   content (snd (SetContent no_templates mail0 unknown_content)) = ''hello'' \<and>
   Send exponentialBackOffRetry1 rnd0 net_third
     (snd (SetContent no_templates (email_with (NewDialer ''smtp.example.com'' 587 ''u'' ''p''))
        unknown_content)) never_cancelled 3 world0 = (Return EmptyContent, world0)"
proof -
  have h1: "Type unknown_content \<noteq> ContentHTML" and h2: "Type unknown_content \<noteq> ContentText"
    by (simp_all add: unknown_content_def ContentHTML_def ContentText_def)
  show ?thesis
    using h1 h2 SetContent_unrecognized_type [OF h1 h2, of no_templates mail0
        exponentialBackOffRetry1 rnd0 net_third "NewDialer ''smtp.example.com'' 587 ''u'' ''p''"
        never_cancelled 3]
    by (simp add: unknown_content_def mail0_def email_with_def)
qed

end
